theory Spec2Isabelle
  imports Main "HOL-Library.Word"
begin

section \<open>The Modbus server engine of \<^verbatim>\<open>server.go\<close>\<close>

text \<open>
  The development embeds \<^verbatim>\<open>server.go\<close> of package \<^verbatim>\<open>mbserver\<close>: the server
  record, construction, the dispatch table, request handling, the serializer loop and the
  checkpoint functions. Mutation of the server is explicit state passing; everything the
  process does to its surroundings (log lines, the checkpoint file, writes to connections,
  the start of the serializer goroutine, \<^verbatim>\<open>log.Fatal\<close>) is recorded in a \<open>world\<close>.
\<close>

subsection \<open>Data\<close>

type_synonym byte = "8 word"
type_synonym uint16 = "16 word"
type_synonym error = string

text \<open>
  Modelled from the spec: the type \<^verbatim>\<open>Exception\<close> and the package-level variables
  \<^verbatim>\<open>Success\<close> and \<^verbatim>\<open>IllegalFunction\<close> are declared outside \<^verbatim>\<open>server.go\<close>. An
  exception is an enumerated protocol error code. \<^verbatim>\<open>server.go\<close> only handles pointers
  to exceptions: a pointer is nil or the address of an \<^verbatim>\<open>Exception\<close> variable, and two
  distinct package-level variables have distinct addresses. The values stored at the
  addresses are an \<open>exception_heap\<close>.
\<close>

type_synonym Exception = byte

datatype exception_ptr = NilException | Ref nat

type_synonym exception_heap = "nat \<Rightarrow> Exception"

definition addr_Success :: exception_ptr where
  "addr_Success = Ref 0"

definition addr_IllegalFunction :: exception_ptr where
  "addr_IllegalFunction = Ref 1"

fun deref :: "exception_heap \<Rightarrow> exception_ptr \<Rightarrow> Exception option" where
  "deref hp NilException = None"
| "deref hp (Ref a) = Some (hp a)"

text \<open>
  Modelled from the spec: the interface \<^verbatim>\<open>Framer\<close> is declared outside
  \<^verbatim>\<open>server.go\<close>; it offers GetFunction, GetData, Copy, SetData, SetException and
  Bytes. A request frame carries its function code, its payload and the transport's own
  header fields. A response is the template obtained by \<^verbatim>\<open>Copy\<close> together with the
  sequence of \<^verbatim>\<open>SetData\<close> and \<^verbatim>\<open>SetException\<close> calls made on it, in order, so that
  what \<^verbatim>\<open>handle\<close> does to the response can be read off the value it returns.
  \<^verbatim>\<open>Bytes\<close> is a parameter of the serializer loop.
\<close>

record Framer =
  GetFunction :: byte
  GetData :: "byte list"
  header :: "byte list"

datatype call = Call_SetData "byte list" | Call_SetException exception_ptr

record response =
  template :: Framer
  calls :: "call list"

definition Copy :: "Framer \<Rightarrow> response" where
  "Copy f = \<lparr>template = f, calls = []\<rparr>"

definition SetData :: "response \<Rightarrow> byte list \<Rightarrow> response" where
  "SetData r d = r\<lparr>calls := calls r @ [Call_SetData d]\<rparr>"

definition SetException :: "response \<Rightarrow> exception_ptr \<Rightarrow> response" where
  "SetException r e = r\<lparr>calls := calls r @ [Call_SetException e]\<rparr>"

text \<open>
  The entries of the dispatch table are Go function values. They are named here: the eight
  default handlers of the package and any number of handlers supplied by the application.
  What a handler does when called is given to \<^verbatim>\<open>handle\<close> as the parameter \<open>invoke\<close>
  (the handlers' code is outside \<^verbatim>\<open>server.go\<close>): from the server and the request
  frame to the returned payload, the returned exception pointer and the server as the
  handler leaves it, or \<open>None\<close> when the handler panics.
\<close>

datatype handler_fn =
    ReadCoils | ReadDiscreteInputs | ReadHoldingRegisters | ReadInputRegisters
  | WriteSingleCoil | WriteHoldingRegister | WriteMultipleCoils | WriteHoldingRegisters
  | Custom nat

record StateObject =
  DiscreteInputs :: "byte list"
  Coils :: "byte list"
  HoldingRegisters :: "uint16 list"
  InputRegisters :: "uint16 list"

text \<open>
  \<^verbatim>\<open>listeners\<close> and \<^verbatim>\<open>ports\<close> hold handles of open transports; \<^verbatim>\<open>requestChan\<close>
  is \<open>False\<close> for the nil channel and \<open>True\<close> once the channel has been made. The table
  \<^verbatim>\<open>function\<close> is a Go array of 256 function values indexed by a \<^verbatim>\<open>uint8\<close>; a nil entry
  is \<open>None\<close>.
\<close>

record Server =
  Debug :: bool
  listeners :: "nat list"
  ports :: "nat list"
  requestChan :: bool
  "function" :: "byte \<Rightarrow> handler_fn option"
  DiscreteInputs :: "byte list"
  Coils :: "byte list"
  HoldingRegisters :: "uint16 list"
  InputRegisters :: "uint16 list"

type_synonym invoke = "handler_fn \<Rightarrow> Server \<Rightarrow> Framer \<Rightarrow> (byte list \<times> exception_ptr \<times> Server) option"

text \<open>
  A connection is an \<^verbatim>\<open>io.ReadWriteCloser\<close>; the loop only calls \<^verbatim>\<open>Write\<close> on it,
  which returns the number of bytes written and an error or nil.
\<close>

record conn =
  conn_id :: nat
  Write :: "byte list \<Rightarrow> nat \<times> error option"

record Request =
  conn :: conn
  frame :: Framer

subsection \<open>The world outside the server\<close>

text \<open>
  The checkpoint file \<^verbatim>\<open>modbus.state\<close> is missing, present but not accessible, or
  present with contents. \<open>write_fault\<close> says how the next \<^verbatim>\<open>ioutil.WriteFile\<close> fails,
  if it does: before the file is truncated, or after a number of bytes have been written.
\<close>

datatype file_state = Missing | Unreadable error | Contents "byte list"

datatype write_fault = OpenFails error | WriteFailsAfter nat error

record disk =
  checkpointFile :: file_state
  write_fault :: "write_fault option"

datatype event =
    Println string
  | Printf_function byte "byte list"
  | Fatal error
  | Go_handler
  | Conn_Write nat "byte list" nat "error option"

record world =
  disk :: disk
  trace :: "event list"

definition emit :: "event \<Rightarrow> world \<Rightarrow> world" where
  "emit e w = w\<lparr>trace := trace w @ [e]\<rparr>"

text \<open>
  A function that may call \<^verbatim>\<open>log.Fatal\<close> either ends the process (\<open>Exit\<close>, with the
  world as the process leaves it) or returns.
\<close>

datatype 'a outcome = Exit world | Return 'a world

definition Stat_IsNotExist :: "disk \<Rightarrow> bool" where
  "Stat_IsNotExist d = (checkpointFile d = Missing)"

definition Open :: "disk \<Rightarrow> error + byte list" where
  "Open d = (case checkpointFile d of
               Missing \<Rightarrow> Inl ''open modbus.state: no such file or directory''
             | Unreadable e \<Rightarrow> Inl e
             | Contents bs \<Rightarrow> Inr bs)"

definition WriteFile :: "disk \<Rightarrow> byte list \<Rightarrow> error + disk" where
  "WriteFile d buf = (case write_fault d of
                        None \<Rightarrow> Inr (d\<lparr>checkpointFile := Contents buf\<rparr>)
                      | Some (OpenFails e) \<Rightarrow> Inl e
                      | Some (WriteFailsAfter n e) \<Rightarrow> Inl e)"

definition WriteFile_leaves :: "disk \<Rightarrow> byte list \<Rightarrow> disk" where
  "WriteFile_leaves d buf = (case write_fault d of
                        None \<Rightarrow> d\<lparr>checkpointFile := Contents buf\<rparr>
                      | Some (OpenFails e) \<Rightarrow> d
                      | Some (WriteFailsAfter n e) \<Rightarrow> d\<lparr>checkpointFile := Contents (take n buf)\<rparr>)"

subsection \<open>Checkpoint\<close>

text \<open>
  The gob encoder and decoder are library code; they are the parameters \<open>Encode\<close> and
  \<open>Decode\<close>.
\<close>

type_synonym encoder = "StateObject \<Rightarrow> error + byte list"
type_synonym decoder = "byte list \<Rightarrow> error + StateObject"

definition saveState :: "encoder \<Rightarrow> Server \<Rightarrow> world \<Rightarrow> unit outcome" where
  "saveState Encode s w =
     (let w = emit (Println ''saving state . . .'') w;
          so = \<lparr>StateObject.DiscreteInputs = DiscreteInputs s,
                StateObject.Coils = Coils s,
                StateObject.HoldingRegisters = HoldingRegisters s,
                StateObject.InputRegisters = InputRegisters s\<rparr>
      in case Encode so of
           Inl err \<Rightarrow> Exit (emit (Fatal err) w)
         | Inr buf \<Rightarrow>
             (case WriteFile (disk w) buf of
                Inl err \<Rightarrow> Exit (emit (Fatal err) (w\<lparr>disk := WriteFile_leaves (disk w) buf\<rparr>))
              | Inr d \<Rightarrow> Return () (emit (Println ''done'') (w\<lparr>disk := d\<rparr>))))"

definition restoreState :: "decoder \<Rightarrow> Server \<Rightarrow> world \<Rightarrow> Server outcome" where
  "restoreState Decode s w =
     (let w = emit (Println ''restoring state . . .'') w
      in if \<not> Stat_IsNotExist (disk w) then
           (case Open (disk w) of
              Inl err \<Rightarrow> Exit (emit (Fatal err) w)
            | Inr f \<Rightarrow>
                (case Decode f of
                   Inl err \<Rightarrow> Exit (emit (Fatal err) w)
                 | Inr so \<Rightarrow>
                     Return (s\<lparr>DiscreteInputs := StateObject.DiscreteInputs so,
                               Coils := StateObject.Coils so,
                               HoldingRegisters := StateObject.HoldingRegisters so,
                               InputRegisters := StateObject.InputRegisters so\<rparr>)
                            (emit (Println ''done'') w)))
         else Return s (emit (Println ''done'') w))"

subsection \<open>Construction and the dispatch table\<close>

definition zero_Server :: Server where
  "zero_Server = \<lparr>Debug = False, listeners = [], ports = [], requestChan = False,
                  function = (\<lambda>_. None), DiscreteInputs = [], Coils = [],
                  HoldingRegisters = [], InputRegisters = []\<rparr>"

definition allocated_Server :: Server where
  "allocated_Server =
     (let s = zero_Server;
          s = s\<lparr>DiscreteInputs := replicate 65536 0\<rparr>;
          s = s\<lparr>Coils := replicate 65536 0\<rparr>;
          s = s\<lparr>HoldingRegisters := replicate 65536 0\<rparr>;
          s = s\<lparr>InputRegisters := replicate 65536 0\<rparr>;
          s = s\<lparr>function := (function s)(1 := Some ReadCoils)\<rparr>;
          s = s\<lparr>function := (function s)(2 := Some ReadDiscreteInputs)\<rparr>;
          s = s\<lparr>function := (function s)(3 := Some ReadHoldingRegisters)\<rparr>;
          s = s\<lparr>function := (function s)(4 := Some ReadInputRegisters)\<rparr>;
          s = s\<lparr>function := (function s)(5 := Some WriteSingleCoil)\<rparr>;
          s = s\<lparr>function := (function s)(6 := Some WriteHoldingRegister)\<rparr>;
          s = s\<lparr>function := (function s)(15 := Some WriteMultipleCoils)\<rparr>;
          s = s\<lparr>function := (function s)(16 := Some WriteHoldingRegisters)\<rparr>
      in s)"

text \<open>
  \<^verbatim>\<open>NewServer\<close>: allocate, install the default handlers, restore, make the channel and
  start the serializer goroutine (the event \<open>Go_handler\<close>).
\<close>

definition NewServer :: "decoder \<Rightarrow> world \<Rightarrow> Server outcome" where
  "NewServer Decode w =
     (case restoreState Decode allocated_Server w of
        Exit w' \<Rightarrow> Exit w'
      | Return s w' \<Rightarrow> Return (s\<lparr>requestChan := True\<rparr>) (emit Go_handler w'))"

definition RegisterFunctionHandler :: "Server \<Rightarrow> byte \<Rightarrow> handler_fn option \<Rightarrow> Server" where
  "RegisterFunctionHandler s funcCode function' = s\<lparr>function := (function s)(funcCode := function')\<rparr>"

subsection \<open>Handling a request\<close>

text \<open>
  \<^verbatim>\<open>handle\<close> prints its log line, copies the request frame, looks the function code up
  and, when the entry is not nil, calls the handler and \<^verbatim>\<open>SetData\<close>; otherwise the
  exception is \<^verbatim>\<open>&IllegalFunction\<close>. The comparison with \<^verbatim>\<open>&Success\<close> that follows is
  shared by both branches. The result is \<open>None\<close> when the handler panics.
\<close>

definition handle :: "invoke \<Rightarrow> Server \<Rightarrow> Request \<Rightarrow> world \<Rightarrow> (response \<times> Server \<times> world) option" where
  "handle invoke s request w =
     (let w = emit (Printf_function (GetFunction (frame request)) (GetData (frame request))) w;
          response = Copy (frame request);
          function' = GetFunction (frame request)
      in case (case function s function' of
                 Some h \<Rightarrow>
                   (case invoke h s (frame request) of
                      None \<Rightarrow> None
                    | Some (data, exception, s') \<Rightarrow> Some (SetData response data, exception, s'))
               | None \<Rightarrow> Some (response, addr_IllegalFunction, s)) of
           None \<Rightarrow> None
         | Some (response, exception, s') \<Rightarrow>
             Some (if exception \<noteq> addr_Success then SetException response exception else response,
                   s', w))"



subsection \<open>Observations\<close>



text \<open>The value a call returned, if the process did not exit in it.\<close>

fun returned :: "'a outcome \<Rightarrow> 'a option" where
  "returned (Exit w) = None"
| "returned (Return x w) = Some x"

text \<open>All four arrays span the 16-bit address space.\<close>

definition full_size :: "Server \<Rightarrow> bool" where
  "full_size s = (length (DiscreteInputs s) = 65536 \<and> length (Coils s) = 65536
                  \<and> length (HoldingRegisters s) = 65536 \<and> length (InputRegisters s) = 65536)"

definition full_size_snapshot :: "StateObject \<Rightarrow> bool" where
  "full_size_snapshot so =
     (length (StateObject.DiscreteInputs so) = 65536 \<and> length (StateObject.Coils so) = 65536
      \<and> length (StateObject.HoldingRegisters so) = 65536
      \<and> length (StateObject.InputRegisters so) = 65536)"

subsection \<open>A serialization to run the checkpoint functions on\<close>

text \<open>
  A small self-delimiting encoding of a \<open>StateObject\<close>, standing in for gob where a
  concrete encoder and decoder are needed: each array is written element by element, every
  element after a byte 1, and closed by a byte 0; a 16-bit register is two bytes, high
  byte first.
\<close>

definition uint16_bytes :: "uint16 \<Rightarrow> byte list" where
  "uint16_bytes x = [of_nat (unat x div 256), of_nat (unat x mod 256)]"

definition bytes_uint16 :: "byte \<Rightarrow> byte \<Rightarrow> uint16" where
  "bytes_uint16 hi lo = of_nat (unat hi * 256 + unat lo)"

fun put_bytes :: "byte list \<Rightarrow> byte list" where
  "put_bytes [] = [0]"
| "put_bytes (x # xs) = 1 # x # put_bytes xs"

fun put_uint16s :: "uint16 list \<Rightarrow> byte list" where
  "put_uint16s [] = [0]"
| "put_uint16s (x # xs) = 1 # uint16_bytes x @ put_uint16s xs"

fun get_bytes :: "byte list \<Rightarrow> (byte list \<times> byte list) option" where
  "get_bytes [] = None"
| "get_bytes (t # rest) =
     (if t = 0 then Some ([], rest)
      else (case rest of
              [] \<Rightarrow> None
            | x # rest' \<Rightarrow> (case get_bytes rest' of
                              None \<Rightarrow> None
                            | Some (xs, r) \<Rightarrow> Some (x # xs, r))))"

fun get_uint16s :: "byte list \<Rightarrow> (uint16 list \<times> byte list) option" where
  "get_uint16s [] = None"
| "get_uint16s (t # rest) =
     (if t = 0 then Some ([], rest)
      else (case rest of
              hi # lo # rest' \<Rightarrow> (case get_uint16s rest' of
                                    None \<Rightarrow> None
                                  | Some (xs, r) \<Rightarrow> Some (bytes_uint16 hi lo # xs, r))
            | _ \<Rightarrow> None))"

definition demo_Encode :: encoder where
  "demo_Encode so =
     Inr (put_bytes (StateObject.DiscreteInputs so) @ put_bytes (StateObject.Coils so)
          @ put_uint16s (StateObject.HoldingRegisters so)
          @ put_uint16s (StateObject.InputRegisters so))"

definition demo_Decode :: decoder where
  "demo_Decode buf =
     (case get_bytes buf of
        None \<Rightarrow> Inl ''unexpected EOF''
      | Some (di, r1) \<Rightarrow>
     (case get_bytes r1 of
        None \<Rightarrow> Inl ''unexpected EOF''
      | Some (co, r2) \<Rightarrow>
     (case get_uint16s r2 of
        None \<Rightarrow> Inl ''unexpected EOF''
      | Some (hr, r3) \<Rightarrow>
     (case get_uint16s r3 of
        None \<Rightarrow> Inl ''unexpected EOF''
      | Some (ir, r4) \<Rightarrow>
          if r4 = [] then
            Inr \<lparr>StateObject.DiscreteInputs = di, StateObject.Coils = co,
                 StateObject.HoldingRegisters = hr, StateObject.InputRegisters = ir\<rparr>
          else Inl ''extra data in buffer''))))"

subsection \<open>Concrete inputs\<close>

text \<open>
  A world with no checkpoint file and an empty trace. Two application handlers: the first
  returns a fixed payload and \<^verbatim>\<open>&Success\<close>; the second echoes the request payload,
  returns a pointer to an exception variable of its own and shortens the coils. A server
  with these two registered for the codes 65 and 66. A connection whose writes succeed and
  one whose writes fail. Requests for the codes 65, 66 and the unregistered 99.
\<close>

definition w0 :: world where
  "w0 = \<lparr>disk = \<lparr>checkpointFile = Missing, write_fault = None\<rparr>, trace = []\<rparr>"

definition demo_invoke :: invoke where
  "demo_invoke h s f =
     (if h = Custom 0 then Some ([0xAA, 0xBB], addr_Success, s)
      else if h = Custom 1 then Some (GetData f, Ref 7, s\<lparr>Coils := take 10 (Coils s)\<rparr>)
      else None)"


definition demo_conn :: conn where
  "demo_conn = \<lparr>conn_id = 3, Write = (\<lambda>bs. (length bs, None))\<rparr>"


definition server65 :: Server where
  "server65 = RegisterFunctionHandler
                (RegisterFunctionHandler allocated_Server 65 (Some (Custom 0)))
                66 (Some (Custom 1))"

definition request65 :: Request where
  "request65 = \<lparr>conn = demo_conn, frame = \<lparr>GetFunction = 65, GetData = [], header = [0, 1]\<rparr>\<rparr>"

definition request66 :: Request where
  "request66 = \<lparr>conn = demo_conn, frame = \<lparr>GetFunction = 66, GetData = [5], header = [0, 2]\<rparr>\<rparr>"

definition request99 :: Request where
  "request99 = \<lparr>conn = demo_conn, frame = \<lparr>GetFunction = 99, GetData = [1, 2], header = []\<rparr>\<rparr>"


text \<open>
  A server holding 1234 in holding register 100. A checkpoint whose arrays are short (no
  discrete inputs, one coil, two holding registers, no input registers), its encoding, and
  a checkpoint file that ends in the middle of an array.
\<close>

definition server1234 :: Server where
  "server1234 = allocated_Server\<lparr>HoldingRegisters := (HoldingRegisters allocated_Server)[100 := 1234]\<rparr>"

definition short_so :: StateObject where
  "short_so = \<lparr>StateObject.DiscreteInputs = [], StateObject.Coils = [1],
               StateObject.HoldingRegisters = [0, 1234], StateObject.InputRegisters = []\<rparr>"

definition w_short :: world where
  "w_short = \<lparr>disk = \<lparr>checkpointFile = Contents [0, 1, 1, 0, 1, 0, 0, 1, 4, 210, 0, 0],
                       write_fault = None\<rparr>, trace = []\<rparr>"


section \<open>Properties\<close>

subsection \<open>Helper facts\<close>

lemma allocated_Server_function:
  "function allocated_Server fc =
     (if fc = 1 then Some ReadCoils else if fc = 2 then Some ReadDiscreteInputs
      else if fc = 3 then Some ReadHoldingRegisters else if fc = 4 then Some ReadInputRegisters
      else if fc = 5 then Some WriteSingleCoil else if fc = 6 then Some WriteHoldingRegister
      else if fc = 15 then Some WriteMultipleCoils else if fc = 16 then Some WriteHoldingRegisters
      else None)"
  by (simp add: allocated_Server_def zero_Server_def Let_def)

lemma server65_function:
  "function server65 fc = (if fc = 66 then Some (Custom 1) else if fc = 65 then Some (Custom 0) else function allocated_Server fc)"
  by (simp add: server65_def RegisterFunctionHandler_def)

lemma restoreState_function:
  "restoreState Decode s w = Return s' w' \<Longrightarrow> function s' = function s"
  by (auto simp add: restoreState_def Let_def split: if_splits sum.splits)

lemma restoreState_Missing:
  "checkpointFile (disk w) = Missing \<Longrightarrow>
   restoreState Decode s w
     = Return s (emit (Println ''done'') (emit (Println ''restoring state . . .'') w))"
  by (simp add: restoreState_def Let_def Stat_IsNotExist_def emit_def)

lemma restoreState_Contents_Inr:
  "checkpointFile (disk w) = Contents buf \<Longrightarrow> Decode buf = Inr so \<Longrightarrow>
   restoreState Decode s w
     = Return (s\<lparr>DiscreteInputs := StateObject.DiscreteInputs so,
                 Coils := StateObject.Coils so,
                 HoldingRegisters := StateObject.HoldingRegisters so,
                 InputRegisters := StateObject.InputRegisters so\<rparr>)
              (emit (Println ''done'') (emit (Println ''restoring state . . .'') w))"
  by (simp add: restoreState_def Let_def Stat_IsNotExist_def Open_def emit_def)

lemma saveState_Return:
  assumes "saveState Encode s w = Return u w'"
  shows "\<exists>buf. Encode \<lparr>StateObject.DiscreteInputs = DiscreteInputs s,
                StateObject.Coils = Coils s,
                StateObject.HoldingRegisters = HoldingRegisters s,
                StateObject.InputRegisters = InputRegisters s\<rparr> = Inr buf
          \<and> checkpointFile (disk w') = Contents buf"
  using assms
  by (auto simp add: saveState_def Let_def WriteFile_def emit_def
      split: sum.splits option.splits write_fault.splits)

lemma get_put_bytes: "get_bytes (put_bytes xs @ r) = Some (xs, r)"
  by (induction xs) simp_all

lemma bytes_uint16_bytes: "bytes_uint16 (of_nat (unat x div 256)) (of_nat (unat x mod 256)) = x"
proof -
  have lt: "unat x < 65536"
    using unsigned_less [of x, where ?'a = nat] by simp
  have hi: "unat (of_nat (unat x div 256) :: byte) = unat x div 256"
    using lt by (simp add: unat_of_nat)
  have lo: "unat (of_nat (unat x mod 256) :: byte) = unat x mod 256"
    by (simp add: unat_of_nat)
  show ?thesis
    by (simp add: bytes_uint16_def hi lo)
qed

lemma get_put_uint16s: "get_uint16s (put_uint16s xs @ r) = Some (xs, r)"
  by (induction xs) (simp_all add: uint16_bytes_def bytes_uint16_bytes)

lemma demo_round_trip: "demo_Encode so = Inr buf \<Longrightarrow> demo_Decode buf = Inr so"
  using get_put_uint16s [of "StateObject.InputRegisters so" "[]"]
  by (auto simp add: demo_Encode_def demo_Decode_def get_put_bytes get_put_uint16s)

lemma saveState_ok:
  "write_fault (disk w) = None \<Longrightarrow> Encode \<lparr>StateObject.DiscreteInputs = DiscreteInputs s,
                StateObject.Coils = Coils s,
                StateObject.HoldingRegisters = HoldingRegisters s,
                StateObject.InputRegisters = InputRegisters s\<rparr> = Inr buf \<Longrightarrow>
   saveState Encode s w = Return () (emit (Println ''done'')
       (emit (Println ''saving state . . .'') w\<lparr>disk := (disk w)\<lparr>checkpointFile := Contents buf\<rparr>\<rparr>))"
  by (simp add: saveState_def Let_def WriteFile_def emit_def)

lemma restoreState_cases:
  "restoreState Decode s w =
     (case checkpointFile (disk w) of
        Missing \<Rightarrow> Return s (emit (Println ''done'') (emit (Println ''restoring state . . .'') w))
      | Unreadable err \<Rightarrow> Exit (emit (Fatal err) (emit (Println ''restoring state . . .'') w))
      | Contents buf \<Rightarrow>
          (case Decode buf of
             Inl err \<Rightarrow> Exit (emit (Fatal err) (emit (Println ''restoring state . . .'') w))
           | Inr so \<Rightarrow>
               Return (s\<lparr>DiscreteInputs := StateObject.DiscreteInputs so,
                         Coils := StateObject.Coils so,
                         HoldingRegisters := StateObject.HoldingRegisters so,
                         InputRegisters := StateObject.InputRegisters so\<rparr>)
                      (emit (Println ''done'') (emit (Println ''restoring state . . .'') w))))"
  by (simp add: restoreState_def Let_def Stat_IsNotExist_def Open_def emit_def
      split: file_state.splits sum.splits)

lemma demo_Decode_short:
  "demo_Decode [0, 1, 1, 0, 1, 0, 0, 1, 4, 210, 0, 0] = Inr short_so"
  by (simp add: demo_Decode_def bytes_uint16_def short_so_def)


lemma full_size_allocated: "full_size allocated_Server"
  by (simp add: full_size_def allocated_Server_def zero_Server_def Let_def)

lemma handle_cases:
  "handle invoke s request w =
     (case function s (GetFunction (frame request)) of
        None \<Rightarrow> Some (SetException (Copy (frame request)) addr_IllegalFunction, s,
                      emit (Printf_function (GetFunction (frame request)) (GetData (frame request))) w)
      | Some h \<Rightarrow>
          (case invoke h s (frame request) of
             None \<Rightarrow> None
           | Some (data, exception, s') \<Rightarrow>
               Some (if exception \<noteq> addr_Success
                     then SetException (SetData (Copy (frame request)) data) exception
                     else SetData (Copy (frame request)) data,
                     s',
                     emit (Printf_function (GetFunction (frame request)) (GetData (frame request))) w)))"
  by (simp add: handle_def Let_def addr_Success_def addr_IllegalFunction_def split: option.splits)



lemma full_size_restored:
  "full_size (s\<lparr>DiscreteInputs := StateObject.DiscreteInputs so,
                 Coils := StateObject.Coils so,
                 HoldingRegisters := StateObject.HoldingRegisters so,
                 InputRegisters := StateObject.InputRegisters so\<rparr>) = full_size_snapshot so"
  by (simp add: full_size_def full_size_snapshot_def)

lemma full_size_server1234: "full_size server1234"
  by (simp add: server1234_def full_size_def allocated_Server_def zero_Server_def Let_def)

subsection \<open>Dispatch of a request\<close>

text \<open>
  C1. When the table has no handler for the function code of the request frame,
  \<^verbatim>\<open>handle\<close> returns a response on which exactly one call was made,
  \<^verbatim>\<open>SetException(&IllegalFunction)\<close>: no payload is attached by \<^verbatim>\<open>SetData\<close>. The
  server is returned as it was, so DiscreteInputs, Coils, HoldingRegisters and
  InputRegisters are unchanged.
\<close>

theorem handle_unregistered:
  assumes "function s (GetFunction (frame request)) = None"
  shows "\<exists>response s' w'. handle invoke s request w = Some (response, s', w')
           \<and> template response = frame request
           \<and> calls response = [Call_SetException addr_IllegalFunction]
           \<and> (\<forall>d. Call_SetData d \<notin> set (calls response))
           \<and> s' = s
           \<and> DiscreteInputs s' = DiscreteInputs s \<and> Coils s' = Coils s
           \<and> HoldingRegisters s' = HoldingRegisters s \<and> InputRegisters s' = InputRegisters s"
  using assms
  by (simp add: handle_def Let_def Copy_def SetException_def addr_Success_def
      addr_IllegalFunction_def)

theorem handle_unregistered_witness:
  "function allocated_Server (GetFunction (frame request99)) = None
   \<and> (\<exists>response s' w'. handle demo_invoke allocated_Server request99 w0 = Some (response, s', w')
           \<and> template response = frame request99
           \<and> calls response = [Call_SetException addr_IllegalFunction]
           \<and> (\<forall>d. Call_SetData d \<notin> set (calls response))
           \<and> s' = allocated_Server
           \<and> DiscreteInputs s' = DiscreteInputs allocated_Server
           \<and> Coils s' = Coils allocated_Server
           \<and> HoldingRegisters s' = HoldingRegisters allocated_Server
           \<and> InputRegisters s' = InputRegisters allocated_Server)"
proof -
  have h: "function allocated_Server (GetFunction (frame request99)) = None"
    by (simp add: allocated_Server_function request99_def)
  show ?thesis
    using h handle_unregistered [OF h, of demo_invoke w0] by simp
qed

text \<open>
  C3. When the table has a handler for the function code, \<^verbatim>\<open>handle\<close> copies the
  request frame into the response, invokes the handler on the server and the request
  frame, and calls \<^verbatim>\<open>SetData\<close> with the returned payload in every case. It then calls
  \<^verbatim>\<open>SetException\<close> with the returned exception exactly when that exception is not
  \<^verbatim>\<open>&Success\<close>; for \<^verbatim>\<open>&Success\<close> the only call made on the response is
  \<^verbatim>\<open>SetData\<close>. The server returned is the one the handler left.
\<close>

theorem handle_registered:
  assumes "function s (GetFunction (frame request)) = Some h"
      and "invoke h s (frame request) = Some (data, exception, s')"
  shows "\<exists>response w'. handle invoke s request w = Some (response, s', w')
           \<and> template response = frame request
           \<and> calls response = (if exception = addr_Success then [Call_SetData data]
                                else [Call_SetData data, Call_SetException exception])
           \<and> Call_SetData data \<in> set (calls response)
           \<and> ((\<exists>e. Call_SetException e \<in> set (calls response)) = (exception \<noteq> addr_Success))"
  using assms
  by (auto simp add: handle_def Let_def Copy_def SetData_def SetException_def)

theorem handle_registered_witness:
  "function server65 (GetFunction (frame request65)) = Some (Custom 0)
   \<and> demo_invoke (Custom 0) server65 (frame request65) = Some ([0xAA, 0xBB], addr_Success, server65)
   \<and> (\<exists>response w'. handle demo_invoke server65 request65 w0 = Some (response, server65, w')
           \<and> template response = frame request65
           \<and> calls response = [Call_SetData [0xAA, 0xBB]])
   \<and> function server65 (GetFunction (frame request66)) = Some (Custom 1)
   \<and> demo_invoke (Custom 1) server65 (frame request66)
        = Some ([5], Ref 7, server65\<lparr>Coils := take 10 (Coils server65)\<rparr>)
   \<and> (\<exists>response w'. handle demo_invoke server65 request66 w0
            = Some (response, server65\<lparr>Coils := take 10 (Coils server65)\<rparr>, w')
           \<and> template response = frame request66
           \<and> calls response = [Call_SetData [5], Call_SetException (Ref 7)])"
proof -
  have a: "function server65 (GetFunction (frame request65)) = Some (Custom 0)"
    by (simp add: server65_function request65_def)
  have b: "demo_invoke (Custom 0) server65 (frame request65) = Some ([0xAA, 0xBB], addr_Success, server65)"
    by (simp add: demo_invoke_def)
  have c: "function server65 (GetFunction (frame request66)) = Some (Custom 1)"
    by (simp add: server65_function request66_def)
  have d: "demo_invoke (Custom 1) server65 (frame request66)
        = Some ([5], Ref 7, server65\<lparr>Coils := take 10 (Coils server65)\<rparr>)"
    by (simp add: demo_invoke_def request66_def)
  have e: "Ref 7 \<noteq> addr_Success" by (simp add: addr_Success_def)
  show ?thesis
    using a b c d e handle_registered [where invoke = demo_invoke and w = w0, OF a b]
      handle_registered [where invoke = demo_invoke and w = w0, OF c d]
    by auto
qed

text \<open>
  C9. The test that decides on \<^verbatim>\<open>SetException\<close> compares pointers: the call is made
  exactly when the returned pointer differs from the address of the package-level
  \<^verbatim>\<open>Success\<close>, whatever the pointed-to values are. In particular it is made for a
  pointer to another variable that holds the same value as \<^verbatim>\<open>Success\<close>.
\<close>

theorem handle_compares_pointers:
  assumes "function s (GetFunction (frame request)) = Some h"
      and "invoke h s (frame request) = Some (data, exception, s')"
  shows "\<exists>response w'. handle invoke s request w = Some (response, s', w')
           \<and> ((Call_SetException exception \<in> set (calls response)) = (exception \<noteq> addr_Success))
           \<and> ((\<exists>e. Call_SetException e \<in> set (calls response)) = (exception \<noteq> addr_Success))
           \<and> (\<forall>hp. exception \<noteq> addr_Success \<and> deref hp exception = deref hp addr_Success
                  \<longrightarrow> Call_SetException exception \<in> set (calls response))"
  using assms
  by (auto simp add: handle_def Let_def Copy_def SetData_def SetException_def)

theorem handle_compares_pointers_witness:
  "function server65 (GetFunction (frame request66)) = Some (Custom 1)
   \<and> demo_invoke (Custom 1) server65 (frame request66)
        = Some ([5], Ref 7, server65\<lparr>Coils := take 10 (Coils server65)\<rparr>)
   \<and> Ref 7 \<noteq> addr_Success
   \<and> deref (\<lambda>_. 0) (Ref 7) = deref (\<lambda>_. 0) addr_Success
   \<and> (\<exists>response w'. handle demo_invoke server65 request66 w0
            = Some (response, server65\<lparr>Coils := take 10 (Coils server65)\<rparr>, w')
           \<and> Call_SetException (Ref 7) \<in> set (calls response))"
proof -
  have c: "function server65 (GetFunction (frame request66)) = Some (Custom 1)"
    by (simp add: server65_function request66_def)
  have d: "demo_invoke (Custom 1) server65 (frame request66)
        = Some ([5], Ref 7, server65\<lparr>Coils := take 10 (Coils server65)\<rparr>)"
    by (simp add: demo_invoke_def request66_def)
  have e: "Ref 7 \<noteq> addr_Success" by (simp add: addr_Success_def)
  have f: "deref (\<lambda>_. 0) (Ref 7) = deref (\<lambda>_. 0) addr_Success" by (simp add: addr_Success_def)
  show ?thesis
    using c d e f handle_compares_pointers [where invoke = demo_invoke and w = w0, OF c d]
    by blast
qed

subsection \<open>The dispatch table\<close>

text \<open>
  C7. The server that \<^verbatim>\<open>NewServer\<close> returns has handlers for exactly the function
  codes 1, 2, 3, 4, 5, 6, 15 and 16: ReadCoils, ReadDiscreteInputs, ReadHoldingRegisters,
  ReadInputRegisters, WriteSingleCoil, WriteHoldingRegister, WriteMultipleCoils and
  WriteHoldingRegisters in this order; every other entry of the table is empty.
\<close>

theorem NewServer_default_handlers:
  assumes "NewServer Decode w = Return s w'"
  shows "function s fc =
     (if fc = 1 then Some ReadCoils else if fc = 2 then Some ReadDiscreteInputs
      else if fc = 3 then Some ReadHoldingRegisters else if fc = 4 then Some ReadInputRegisters
      else if fc = 5 then Some WriteSingleCoil else if fc = 6 then Some WriteHoldingRegister
      else if fc = 15 then Some WriteMultipleCoils else if fc = 16 then Some WriteHoldingRegisters
      else None)"
proof -
  from assms obtain s1 w1 where r: "restoreState Decode allocated_Server w = Return s1 w1"
    and s: "s = s1\<lparr>requestChan := True\<rparr>"
    by (auto simp add: NewServer_def split: outcome.splits)
  have "function s = function allocated_Server"
    using restoreState_function [OF r] s by simp
  then show ?thesis by (simp only: allocated_Server_function)
qed

theorem NewServer_default_handlers_witness:
  "NewServer demo_Decode w0
     = Return (allocated_Server\<lparr>requestChan := True\<rparr>)
         (emit Go_handler (emit (Println ''done'') (emit (Println ''restoring state . . .'') w0)))
   \<and> function (allocated_Server\<lparr>requestChan := True\<rparr>) 3 = Some ReadHoldingRegisters
   \<and> function (allocated_Server\<lparr>requestChan := True\<rparr>) 7 = None"
proof -
  have m: "checkpointFile (disk w0) = Missing" by (simp add: w0_def)
  have n: "NewServer demo_Decode w0
     = Return (allocated_Server\<lparr>requestChan := True\<rparr>)
         (emit Go_handler (emit (Println ''done'') (emit (Println ''restoring state . . .'') w0)))"
    by (simp add: NewServer_def restoreState_Missing [OF m])
  show ?thesis
    using n NewServer_default_handlers [OF n, of 3] NewServer_default_handlers [OF n, of 7]
    by simp
qed

text \<open>
  C8. \<^verbatim>\<open>RegisterFunctionHandler\<close> stores the given function value in the entry of the
  given code, whatever the entry held before, and changes no other entry and none of the
  four arrays. A request with that code, handled afterwards, is answered by the newly
  registered handler: \<^verbatim>\<open>handle\<close> invokes it and builds the response from what it
  returns.
\<close>

theorem RegisterFunctionHandler_replaces:
  "function (RegisterFunctionHandler s funcCode h) fc = (if fc = funcCode then h else function s fc)
   \<and> DiscreteInputs (RegisterFunctionHandler s funcCode h) = DiscreteInputs s
   \<and> Coils (RegisterFunctionHandler s funcCode h) = Coils s
   \<and> HoldingRegisters (RegisterFunctionHandler s funcCode h) = HoldingRegisters s
   \<and> InputRegisters (RegisterFunctionHandler s funcCode h) = InputRegisters s
   \<and> (GetFunction (frame request) = funcCode \<longrightarrow>
        handle invoke (RegisterFunctionHandler s funcCode (Some h')) request w
          = (case invoke h' (RegisterFunctionHandler s funcCode (Some h')) (frame request) of
               None \<Rightarrow> None
             | Some (data, exception, s') \<Rightarrow>
                 Some (if exception \<noteq> addr_Success
                       then SetException (SetData (Copy (frame request)) data) exception
                       else SetData (Copy (frame request)) data,
                       s',
                       emit (Printf_function funcCode (GetData (frame request))) w)))"
  by (auto simp add: RegisterFunctionHandler_def handle_def Let_def split: option.splits)

theorem RegisterFunctionHandler_replaces_witness:
  "function allocated_Server 3 = Some ReadHoldingRegisters
   \<and> function (RegisterFunctionHandler allocated_Server 3 (Some (Custom 0))) 3 = Some (Custom 0)
   \<and> function (RegisterFunctionHandler allocated_Server 3 (Some (Custom 0))) 4 = Some ReadInputRegisters
   \<and> function allocated_Server 65 = None
   \<and> function (RegisterFunctionHandler allocated_Server 65 (Some (Custom 0))) 65 = Some (Custom 0)
   \<and> GetFunction (frame request65) = 65
   \<and> handle demo_invoke (RegisterFunctionHandler allocated_Server 65 (Some (Custom 0))) request65 w0
        = Some (SetData (Copy (frame request65)) [0xAA, 0xBB],
                RegisterFunctionHandler allocated_Server 65 (Some (Custom 0)),
                emit (Printf_function 65 (GetData (frame request65))) w0)"
proof -
  have g: "GetFunction (frame request65) = 65" by (simp add: request65_def)
  show ?thesis
    using g
      RegisterFunctionHandler_replaces [of allocated_Server 3 "Some (Custom 0)" 3 request65 demo_invoke "Custom 0" w0]
      RegisterFunctionHandler_replaces [of allocated_Server 3 "Some (Custom 0)" 4 request65 demo_invoke "Custom 0" w0]
      RegisterFunctionHandler_replaces [of allocated_Server 65 "Some (Custom 0)" 65 request65 demo_invoke "Custom 0" w0]
    by (simp add: allocated_Server_function demo_invoke_def)
qed

subsection \<open>Checkpoint\<close>

text \<open>
  C2. Round trip. If \<^verbatim>\<open>saveState\<close> returns, and the decoder gives back the snapshot of
  the four arrays from the bytes the encoder produced for it, then \<^verbatim>\<open>NewServer\<close> run
  on the world that \<^verbatim>\<open>saveState\<close> left returns a server whose DiscreteInputs, Coils,
  HoldingRegisters and InputRegisters equal those of the saved server.
\<close>

theorem save_restore_round_trip:
  assumes "saveState Encode s w = Return () w'"
      and "\<And>buf. Encode \<lparr>StateObject.DiscreteInputs = DiscreteInputs s,
                StateObject.Coils = Coils s,
                StateObject.HoldingRegisters = HoldingRegisters s,
                StateObject.InputRegisters = InputRegisters s\<rparr> = Inr buf
             \<Longrightarrow> Decode buf = Inr \<lparr>StateObject.DiscreteInputs = DiscreteInputs s,
                StateObject.Coils = Coils s,
                StateObject.HoldingRegisters = HoldingRegisters s,
                StateObject.InputRegisters = InputRegisters s\<rparr>"
  shows "\<exists>s' w''. NewServer Decode w' = Return s' w''
           \<and> DiscreteInputs s' = DiscreteInputs s \<and> Coils s' = Coils s
           \<and> HoldingRegisters s' = HoldingRegisters s \<and> InputRegisters s' = InputRegisters s"
proof -
  from saveState_Return [OF assms(1)] obtain buf where
    e: "Encode \<lparr>StateObject.DiscreteInputs = DiscreteInputs s,
                StateObject.Coils = Coils s,
                StateObject.HoldingRegisters = HoldingRegisters s,
                StateObject.InputRegisters = InputRegisters s\<rparr> = Inr buf"
    and f: "checkpointFile (disk w') = Contents buf"
    by blast
  note d = assms(2) [OF e]
  show ?thesis
    by (simp add: NewServer_def restoreState_Contents_Inr [where Decode = Decode, OF f d])
qed

theorem save_restore_round_trip_witness:
  "(\<exists>w'. saveState demo_Encode server1234 w0 = Return () w'
      \<and> (\<exists>s' w''. NewServer demo_Decode w' = Return s' w''
           \<and> DiscreteInputs s' = DiscreteInputs server1234 \<and> Coils s' = Coils server1234
           \<and> HoldingRegisters s' = HoldingRegisters server1234
           \<and> InputRegisters s' = InputRegisters server1234
           \<and> HoldingRegisters s' ! 100 = 1234))"
proof -
  obtain buf where e: "demo_Encode \<lparr>StateObject.DiscreteInputs = DiscreteInputs server1234,
                StateObject.Coils = Coils server1234,
                StateObject.HoldingRegisters = HoldingRegisters server1234,
                StateObject.InputRegisters = InputRegisters server1234\<rparr> = Inr buf"
    by (simp add: demo_Encode_def)
  have wf: "write_fault (disk w0) = None" by (simp add: w0_def)
  note sv = saveState_ok [where Encode = demo_Encode, OF wf e]
  have r: "HoldingRegisters server1234 ! 100 = 1234"
    by (simp add: server1234_def allocated_Server_def zero_Server_def Let_def)
  from save_restore_round_trip [where Encode = demo_Encode and Decode = demo_Decode, OF sv demo_round_trip]
  show ?thesis using sv r by auto
qed

text \<open>
  C10. With no checkpoint file, \<^verbatim>\<open>restoreState\<close> returns the server it was given,
  every field as before; it only writes its two log lines.
\<close>

theorem restoreState_without_checkpoint:
  assumes "checkpointFile (disk w) = Missing"
  shows "\<exists>w'. restoreState Decode s w = Return s w' \<and> disk w' = disk w
           \<and> trace w' = trace w @ [Println ''restoring state . . .'', Println ''done'']"
  using assms
  by (simp add: restoreState_def Let_def Stat_IsNotExist_def emit_def)

theorem restoreState_without_checkpoint_witness:
  "checkpointFile (disk w0) = Missing
   \<and> (\<exists>w'. restoreState demo_Decode server1234 w0 = Return server1234 w' \<and> disk w' = disk w0
           \<and> trace w' = trace w0 @ [Println ''restoring state . . .'', Println ''done''])"
proof -
  have m: "checkpointFile (disk w0) = Missing" by (simp add: w0_def)
  show ?thesis
    using m restoreState_without_checkpoint [OF m, of demo_Decode server1234] by simp
qed



subsection \<open>Sizes of the arrays\<close>

text \<open>
  The claim C4 as stated, that all four arrays have length 65536 after every operation and
  in particular after \<^verbatim>\<open>restoreState\<close>, fails: \<^verbatim>\<open>restoreState\<close> installs the arrays
  of the decoded checkpoint without looking at their lengths. From a checkpoint with no
  discrete inputs, one coil, two holding registers and no input registers, the fully
  allocated server comes back with arrays of these lengths, and so does the server that
  \<^verbatim>\<open>NewServer\<close> returns.
\<close>

theorem restoreState_installs_short_arrays:
  "full_size allocated_Server
   \<and> restoreState demo_Decode allocated_Server w_short
       = Return (allocated_Server\<lparr>DiscreteInputs := [], Coils := [1],
                                 HoldingRegisters := [0, 1234], InputRegisters := []\<rparr>)
           (emit (Println ''done'') (emit (Println ''restoring state . . .'') w_short))
   \<and> length (Coils (allocated_Server\<lparr>DiscreteInputs := [], Coils := [1],
                                 HoldingRegisters := [0, 1234], InputRegisters := []\<rparr>)) = 1
   \<and> map_option full_size (returned (restoreState demo_Decode allocated_Server w_short)) = Some False
   \<and> map_option full_size (returned (NewServer demo_Decode w_short)) = Some False"
proof -
  have f1: "checkpointFile (disk w_short) = Contents [0, 1, 1, 0, 1, 0, 0, 1, 4, 210, 0, 0]"
    by (simp add: w_short_def)
  show ?thesis
    using full_size_allocated
    by (simp add: NewServer_def restoreState_cases f1 demo_Decode_short
        short_so_def full_size_def)
qed

text \<open>
  C4, amended. \<^verbatim>\<open>NewServer\<close> without a checkpoint file returns a server whose four
  arrays have length 65536 and hold zeros. After \<^verbatim>\<open>restoreState\<close> the four lengths are
  65536 exactly when, without a checkpoint file, they were before, and with one, the
  decoded arrays have that length; this is so for a checkpoint that \<^verbatim>\<open>saveState\<close> wrote
  from a server with full arrays and that the decoder reads back. \<^verbatim>\<open>handle\<close> does not
  change the arrays itself: the server after it is the server before it when no handler is
  registered, and otherwise the server the invoked handler left.
\<close>

theorem array_lengths:
  "(checkpointFile (disk w) = Missing \<longrightarrow>
      (\<exists>s w'. NewServer Decode w = Return s w' \<and> full_size s
         \<and> DiscreteInputs s = replicate 65536 0 \<and> Coils s = replicate 65536 0
         \<and> HoldingRegisters s = replicate 65536 0 \<and> InputRegisters s = replicate 65536 0))
   \<and> (restoreState Decode1 s1 w1 = Return s1' w1' \<longrightarrow>
        full_size s1' =
          (if checkpointFile (disk w1) = Missing then full_size s1
           else (\<exists>buf so. checkpointFile (disk w1) = Contents buf \<and> Decode1 buf = Inr so
                   \<and> full_size_snapshot so)))
   \<and> (full_size s2 \<and> saveState Encode2 s2 w2 = Return () w2'
        \<and> (\<forall>buf. Encode2 \<lparr>StateObject.DiscreteInputs = DiscreteInputs s2,
                          StateObject.Coils = Coils s2,
                          StateObject.HoldingRegisters = HoldingRegisters s2,
                          StateObject.InputRegisters = InputRegisters s2\<rparr> = Inr buf
              \<longrightarrow> Decode2 buf = Inr \<lparr>StateObject.DiscreteInputs = DiscreteInputs s2,
                          StateObject.Coils = Coils s2,
                          StateObject.HoldingRegisters = HoldingRegisters s2,
                          StateObject.InputRegisters = InputRegisters s2\<rparr>)
        \<longrightarrow> (\<exists>s' w'. NewServer Decode2 w2' = Return s' w' \<and> full_size s'))
   \<and> (handle invoke s3 request w3 = Some (response, s3', w3') \<longrightarrow>
        (case function s3 (GetFunction (frame request)) of
           None \<Rightarrow> s3' = s3
         | Some h \<Rightarrow> (\<exists>data exception. invoke h s3 (frame request) = Some (data, exception, s3'))))"
proof (intro conjI impI)
  assume "checkpointFile (disk w) = Missing"
  then show "\<exists>s w'. NewServer Decode w = Return s w' \<and> full_size s
         \<and> DiscreteInputs s = replicate 65536 0 \<and> Coils s = replicate 65536 0
         \<and> HoldingRegisters s = replicate 65536 0 \<and> InputRegisters s = replicate 65536 0"
    by (simp add: NewServer_def restoreState_cases full_size_def allocated_Server_def
        zero_Server_def Let_def)
next
  assume "restoreState Decode1 s1 w1 = Return s1' w1'"
  then show "full_size s1' =
          (if checkpointFile (disk w1) = Missing then full_size s1
           else (\<exists>buf so. checkpointFile (disk w1) = Contents buf \<and> Decode1 buf = Inr so
                   \<and> full_size_snapshot so))"
    by (auto simp add: restoreState_cases full_size_restored split: file_state.splits sum.splits)
next
  assume a: "full_size s2 \<and> saveState Encode2 s2 w2 = Return () w2'
        \<and> (\<forall>buf. Encode2 \<lparr>StateObject.DiscreteInputs = DiscreteInputs s2,
                          StateObject.Coils = Coils s2,
                          StateObject.HoldingRegisters = HoldingRegisters s2,
                          StateObject.InputRegisters = InputRegisters s2\<rparr> = Inr buf
              \<longrightarrow> Decode2 buf = Inr \<lparr>StateObject.DiscreteInputs = DiscreteInputs s2,
                          StateObject.Coils = Coils s2,
                          StateObject.HoldingRegisters = HoldingRegisters s2,
                          StateObject.InputRegisters = InputRegisters s2\<rparr>)"
  then have sv: "saveState Encode2 s2 w2 = Return () w2'" by simp
  from saveState_Return [OF sv] obtain buf where
    e: "Encode2 \<lparr>StateObject.DiscreteInputs = DiscreteInputs s2,
                StateObject.Coils = Coils s2,
                StateObject.HoldingRegisters = HoldingRegisters s2,
                StateObject.InputRegisters = InputRegisters s2\<rparr> = Inr buf"
    and f: "checkpointFile (disk w2') = Contents buf"
    by blast
  from a e have d: "Decode2 buf = Inr \<lparr>StateObject.DiscreteInputs = DiscreteInputs s2,
                          StateObject.Coils = Coils s2,
                          StateObject.HoldingRegisters = HoldingRegisters s2,
                          StateObject.InputRegisters = InputRegisters s2\<rparr>"
    by blast
  from a have fs: "full_size s2" by simp
  show "\<exists>s' w'. NewServer Decode2 w2' = Return s' w' \<and> full_size s'"
    using fs by (simp add: NewServer_def restoreState_cases f d full_size_def)
next
  assume "handle invoke s3 request w3 = Some (response, s3', w3')"
  then show "case function s3 (GetFunction (frame request)) of
           None \<Rightarrow> s3' = s3
         | Some h \<Rightarrow> (\<exists>data exception. invoke h s3 (frame request) = Some (data, exception, s3'))"
    by (auto simp add: handle_cases split: option.splits)
qed

theorem array_lengths_witness:
  "checkpointFile (disk w0) = Missing
   \<and> (\<exists>s w'. NewServer demo_Decode w0 = Return s w' \<and> full_size s
         \<and> DiscreteInputs s = replicate 65536 0 \<and> Coils s = replicate 65536 0
         \<and> HoldingRegisters s = replicate 65536 0 \<and> InputRegisters s = replicate 65536 0)
   \<and> restoreState demo_Decode allocated_Server w_short
        = Return (allocated_Server\<lparr>DiscreteInputs := [], Coils := [1],
                               HoldingRegisters := [0, 1234], InputRegisters := []\<rparr>)
         (emit (Println ''done'') (emit (Println ''restoring state . . .'') w_short))
   \<and> checkpointFile (disk w_short) \<noteq> Missing
   \<and> \<not> full_size (allocated_Server\<lparr>DiscreteInputs := [], Coils := [1],
                               HoldingRegisters := [0, 1234], InputRegisters := []\<rparr>)
   \<and> full_size server1234
   \<and> (\<exists>w'. saveState demo_Encode server1234 w0 = Return () w'
         \<and> (\<exists>s' w''. NewServer demo_Decode w' = Return s' w'' \<and> full_size s'))
   \<and> handle demo_invoke server65 request66 w0
        = Some (SetException (SetData (Copy (frame request66)) [5]) (Ref 7),
                server65\<lparr>Coils := take 10 (Coils server65)\<rparr>,
                emit (Printf_function 66 [5]) w0)
   \<and> function server65 (GetFunction (frame request66)) = Some (Custom 1)
   \<and> demo_invoke (Custom 1) server65 (frame request66)
        = Some ([5], Ref 7, server65\<lparr>Coils := take 10 (Coils server65)\<rparr>)"
proof -
  have m: "checkpointFile (disk w0) = Missing" by (simp add: w0_def)
  have f1: "checkpointFile (disk w_short) = Contents [0, 1, 1, 0, 1, 0, 0, 1, 4, 210, 0, 0]"
    by (simp add: w_short_def)
  have r1: "restoreState demo_Decode allocated_Server w_short
     = Return (allocated_Server\<lparr>DiscreteInputs := [], Coils := [1],
                               HoldingRegisters := [0, 1234], InputRegisters := []\<rparr>)
         (emit (Println ''done'') (emit (Println ''restoring state . . .'') w_short))"
    by (simp add: restoreState_cases f1 demo_Decode_short short_so_def)
  obtain buf where e: "demo_Encode \<lparr>StateObject.DiscreteInputs = DiscreteInputs server1234,
                StateObject.Coils = Coils server1234,
                StateObject.HoldingRegisters = HoldingRegisters server1234,
                StateObject.InputRegisters = InputRegisters server1234\<rparr> = Inr buf"
    by (simp add: demo_Encode_def)
  have wf: "write_fault (disk w0) = None" by (simp add: w0_def)
  note sv = saveState_ok [where Encode = demo_Encode, OF wf e]
  have rt: "\<forall>buf. demo_Encode \<lparr>StateObject.DiscreteInputs = DiscreteInputs server1234,
                StateObject.Coils = Coils server1234,
                StateObject.HoldingRegisters = HoldingRegisters server1234,
                StateObject.InputRegisters = InputRegisters server1234\<rparr> = Inr buf
            \<longrightarrow> demo_Decode buf = Inr \<lparr>StateObject.DiscreteInputs = DiscreteInputs server1234,
                StateObject.Coils = Coils server1234,
                StateObject.HoldingRegisters = HoldingRegisters server1234,
                StateObject.InputRegisters = InputRegisters server1234\<rparr>"
    using demo_round_trip by blast
  have c: "function server65 (GetFunction (frame request66)) = Some (Custom 1)"
    by (simp add: server65_function request66_def)
  have d: "demo_invoke (Custom 1) server65 (frame request66)
        = Some ([5], Ref 7, server65\<lparr>Coils := take 10 (Coils server65)\<rparr>)"
    by (simp add: demo_invoke_def request66_def)
  have h: "handle demo_invoke server65 request66 w0
        = Some (SetException (SetData (Copy (frame request66)) [5]) (Ref 7),
                server65\<lparr>Coils := take 10 (Coils server65)\<rparr>,
                emit (Printf_function 66 [5]) w0)"
    by (simp add: handle_cases server65_function demo_invoke_def request66_def addr_Success_def)
  have nf: "\<not> full_size (allocated_Server\<lparr>DiscreteInputs := [], Coils := [1],
                               HoldingRegisters := [0, 1234], InputRegisters := []\<rparr>)"
    by (simp add: full_size_def)
  note t = array_lengths [where w = w0 and Decode = demo_Decode
      and ?Decode1.0 = demo_Decode and ?s1.0 = allocated_Server and ?w1.0 = w_short
      and s1' = "allocated_Server\<lparr>DiscreteInputs := [], Coils := [1],
                               HoldingRegisters := [0, 1234], InputRegisters := []\<rparr>"
      and w1' = "emit (Println ''done'') (emit (Println ''restoring state . . .'') w_short)"
      and ?s2.0 = server1234 and ?Encode2.0 = demo_Encode and ?Decode2.0 = demo_Decode
      and ?w2.0 = w0
      and w2' = "emit (Println ''done'')
       (emit (Println ''saving state . . .'') w0\<lparr>disk := (disk w0)\<lparr>checkpointFile := Contents buf\<rparr>\<rparr>)"
      and invoke = demo_invoke and ?s3.0 = server65 and request = request66 and ?w3.0 = w0
      and response = "SetException (SetData (Copy (frame request66)) [5]) (Ref 7)"
      and s3' = "server65\<lparr>Coils := take 10 (Coils server65)\<rparr>"
      and w3' = "emit (Printf_function 66 [5]) w0"]
  show ?thesis
    using t m f1 r1 nf full_size_server1234 sv rt c d h
    by simp
qed

subsection \<open>The serializer loop\<close>




end
